theory Spec2Isabelle
  imports Complex_Main
begin

section \<open>The Ising chain of the notebook\<close>

text \<open>
  The notebook on the Ising model defines one function of its own,
  \<^verbatim>\<open>
  def calculate_energy(J, \<sigma>):
      return sum(J_ij*\<sigma>[i]*\<sigma>[i+1] for i, J_ij in enumerate(J))
  \<close>
  and runs it on \<^verbatim>\<open>J = [1.0, -1.0]\<close>, \<^verbatim>\<open>\<sigma> = [+1, -1, +1]\<close>. The couplings are a
  Python list of floats (entry \<open>i\<close> couples the sites \<open>i\<close> and \<open>i+1\<close> of a line), the
  configuration a list or tuple of integers. Spins are modelled as unbounded integers,
  as Python's are. Couplings, products and sums are modelled as exact reals: the
  rounding of Python's floats, and their infinities, are not modelled. Where the
  couplings are integers whose absolute values add up to at most \<open>2 ^ 53\<close> and the spins
  are \<open>+1\<close> and \<open>-1\<close>, as on the notebook's instance, every product and every partial
  sum is an integer of magnitude at most \<open>2 ^ 53\<close>, which double arithmetic represents and
  adds exactly, and the model's values are the code's.
\<close>

subsection \<open>Indexing and the generator\<close>

datatype error = IndexError | ValueError | OverflowError

text \<open>\<^verbatim>\<open>xs[i]\<close> for an index \<open>i \<ge> 0\<close>: Python raises IndexError out of range.\<close>

definition getitem :: "'a list \<Rightarrow> nat \<Rightarrow> error + 'a" where
  "getitem xs i = (if i < length xs then Inr (xs ! i) else Inl IndexError)"

text \<open>
  A product of a float and an integer converts the integer to a float first, and the
  conversion raises OverflowError when the integer, rounded to 53 bits, does not fit:
  from \<open>2 ^ 1024 - 2 ^ 970\<close> on, in absolute value.
\<close>

definition too_large :: "int \<Rightarrow> bool" where
  "too_large a = (2 ^ 1024 - 2 ^ 970 \<le> \<bar>a\<bar>)"

definition to_float :: "int \<Rightarrow> error + real" where
  "to_float a = (if too_large a then Inl OverflowError else Inr (of_int a))"

text \<open>
  The body of the generator expression, \<^verbatim>\<open>J_ij*\<sigma>[i]*\<sigma>[i+1]\<close>, for one pair
  \<open>(i, J_ij)\<close> of \<^verbatim>\<open>enumerate(J)\<close>, in Python's order: \<^verbatim>\<open>\<sigma>[i]\<close> is read and the
  product \<^verbatim>\<open>J_ij*\<sigma>[i]\<close> formed, then \<^verbatim>\<open>\<sigma>[i+1]\<close> is read and multiplied in.
\<close>

definition coupling_term :: "int list \<Rightarrow> nat \<times> real \<Rightarrow> error + real" where
  "coupling_term \<sigma> p =
     (case p of (i, J_ij) \<Rightarrow>
        (case getitem \<sigma> i of
           Inl e \<Rightarrow> Inl e
         | Inr a \<Rightarrow>
             (case to_float a of
                Inl e \<Rightarrow> Inl e
              | Inr x \<Rightarrow>
                  (case getitem \<sigma> (i + 1) of
                     Inl e \<Rightarrow> Inl e
                   | Inr b \<Rightarrow>
                       (case to_float b of
                          Inl e \<Rightarrow> Inl e
                        | Inr y \<Rightarrow> Inr (J_ij * x * y))))))"

text \<open>
  The builtin \<^verbatim>\<open>sum\<close> over a generator: the items are produced one at a time and
  added to an accumulator that starts at \<open>0\<close>; the first exception ends the call.
\<close>

fun py_sum :: "('a \<Rightarrow> error + real) \<Rightarrow> 'a list \<Rightarrow> real \<Rightarrow> error + real" where
  "py_sum f [] acc = Inr acc"
| "py_sum f (x # xs) acc =
     (case f x of Inl e \<Rightarrow> Inl e | Inr v \<Rightarrow> py_sum f xs (acc + v))"

definition calculate_energy :: "real list \<Rightarrow> int list \<Rightarrow> error + real" where
  "calculate_energy J \<sigma> = py_sum (coupling_term \<sigma>) (enumerate 0 J) 0"

text \<open>
  The value the function computes when no index is out of range and no entry too large.
\<close>

definition chain_sum :: "real list \<Rightarrow> int list \<Rightarrow> real" where
  "chain_sum J \<sigma> = (\<Sum>i<length J. J ! i * of_int (\<sigma> ! i) * of_int (\<sigma> ! (i + 1)))"

subsection \<open>The formula of the specification\<close>

text \<open>
  The specification's Hamiltonian, written from its words for comparison with the code:
  \<open>H = - \<Sum> J_ij \<sigma>_i \<sigma>_j - \<Sum> h_i \<sigma>_i + offset\<close>, the couplings a dictionary from
  pairs of sites to strengths and the fields a dictionary from sites to strengths (the
  notebook's \<^verbatim>\<open>J = {(0, 1): 1.0, (1, 2): -1.0}\<close> and \<^verbatim>\<open>h = {0:0, 1:0, 2:0}\<close>), both as
  association lists.
\<close>

definition spec_hamiltonian ::
  "((nat \<times> nat) \<times> real) list \<Rightarrow> (nat \<times> real) list \<Rightarrow> real \<Rightarrow> int list \<Rightarrow> real" where
  "spec_hamiltonian couplings fields offset \<sigma> =
     - sum_list (map (\<lambda>((i, j), J_ij). J_ij * of_int (\<sigma> ! i) * of_int (\<sigma> ! j)) couplings)
     - sum_list (map (\<lambda>(i, h_i). h_i * of_int (\<sigma> ! i)) fields)
     + offset"

text \<open>
  The dictionary of a list of chain couplings: entry \<open>i\<close> of the list is the coupling of the
  pair \<open>(i, i+1)\<close>, as the notebook's two forms of \<open>J\<close> show.
\<close>

definition chain_couplings :: "real list \<Rightarrow> ((nat \<times> nat) \<times> real) list" where
  "chain_couplings J = map (\<lambda>(i, J_ij). ((i, i + 1), J_ij)) (enumerate 0 J)"

subsection \<open>The exhaustive enumeration\<close>

text \<open>
  \<^verbatim>\<open>
  for \<sigma> in itertools.product(*[{+1,-1} for _ in range(3)]):
      print(calculate_energy(J, \<sigma>), \<sigma>)
  \<close>
  \<^verbatim>\<open>itertools.product\<close> yields the tuples in lexicographic order of its arguments, the
  last position changing fastest. A set has no order of its own; CPython iterates
  \<^verbatim>\<open>{+1,-1}\<close> as \<open>1, -1\<close>, which is the order taken here, and no property below depends on
  it. The number of sites, the literal \<open>3\<close> of the notebook, is a parameter.
\<close>

definition spins :: "int list" where
  "spins = [1, - 1]"

definition configurations :: "nat \<Rightarrow> int list list" where
  "configurations n = product_lists (replicate n spins)"

text \<open>
  The loop prints one line per configuration. The model returns the lines printed, in
  order, and the exception that ended the loop, if one did.
\<close>

fun exhaustive_loop ::
  "real list \<Rightarrow> int list list \<Rightarrow> (real \<times> int list) list
     \<Rightarrow> (real \<times> int list) list \<times> error option" where
  "exhaustive_loop J [] printed = (printed, None)"
| "exhaustive_loop J (\<sigma> # rest) printed =
     (case calculate_energy J \<sigma> of
        Inl e \<Rightarrow> (printed, Some e)
      | Inr E \<Rightarrow> exhaustive_loop J rest (printed @ [(E, \<sigma>)]))"

definition exhaustive_search ::
  "real list \<Rightarrow> nat \<Rightarrow> (real \<times> int list) list \<times> error option" where
  "exhaustive_search J n = exhaustive_loop J (configurations n) []"

text \<open>
  The code stops at the printed table; the notebook's prose reads the optimum off it
  (``We see that -2 is the optimum, with two optimal configurations''). What a reader of
  the table takes from it: the least energy of its lines, and the configurations of the
  lines that have it.
\<close>

definition minimum_energy :: "(real \<times> int list) list \<Rightarrow> real" where
  "minimum_energy table = Min (set (map fst table))"

definition ground_states :: "(real \<times> int list) list \<Rightarrow> int list list" where
  "ground_states table = map snd (filter (\<lambda>(E, \<sigma>). E = minimum_energy table) table)"

subsection \<open>Binary and spin encodings\<close>

text \<open>
  The ensemble notebook turns the labels \<open>0, 1\<close> of its data into spins:
  \<^verbatim>\<open>y_train = 2 * labels[idx_train] - 1  # binary -> spin\<close>, entry by entry on an array
  of integers.
\<close>

definition binary_to_spin :: "int \<Rightarrow> int" where
  "binary_to_spin w = 2 * w - 1"

text \<open>
  Modelled from the spec: the conversion from spins to binary values, which the
  repository never writes; the specification gives it as \<open>w = (s+1)/2\<close>.
\<close>

definition spin_to_binary :: "int \<Rightarrow> int" where
  "spin_to_binary s = (s + 1) div 2"

subsection \<open>The batch of a sampler\<close>

text \<open>
  \<^verbatim>\<open>
  response = sampler.sample_qubo(Q, num_reads=10)
  weights = list(response.first.sample.values())
  \<close>
  The sampler is a library; its response is taken as given: the list of its reads, each a
  sample (a dictionary from variables to values, as an association list) with the energy
  the library computed for it.
\<close>

type_synonym sample = "(nat \<times> int) list"

text \<open>
  Modelled from the spec: \<^verbatim>\<open>first\<close> of a response, which is the library's code and not
  the repository's; the specification has the batch reduced ``to the configuration of
  minimum observed energy''. Among reads of equal energy the earliest is kept; of an
  empty response the library raises ValueError.
\<close>

fun first_from :: "sample \<times> real \<Rightarrow> (sample \<times> real) list \<Rightarrow> sample \<times> real" where
  "first_from best [] = best"
| "first_from best (r # rs) = first_from (if snd r < snd best then r else best) rs"

definition sampleset_first :: "(sample \<times> real) list \<Rightarrow> error + sample \<times> real" where
  "sampleset_first response =
     (case response of [] \<Rightarrow> Inl ValueError | r # rs \<Rightarrow> Inr (first_from r rs))"

definition weights :: "(sample \<times> real) list \<Rightarrow> error + int list" where
  "weights response =
     (case sampleset_first response of
        Inl e \<Rightarrow> Inl e
      | Inr r \<Rightarrow> Inr (map snd (fst r)))"

subsection \<open>The evaluation, step by step on a store\<close>

text \<open>
  To speak of what an evaluation does to its inputs, and of what it may remember from
  one call to the next, the call is run on a store. The store holds the two arguments and
  what the call itself works on: the position of the iterator behind \<^verbatim>\<open>enumerate(J)\<close>
  and the accumulator of \<^verbatim>\<open>sum\<close>. A call starts with a new iterator and a new
  accumulator; the iterator yields the pair \<open>(i, J[i])\<close> at its position and moves on, or
  is exhausted at the end of the list; \<^verbatim>\<open>\<sigma>[i]\<close> reads an entry or raises; the
  conversion of an entry to a float works on the value read; each product is added to
  the accumulator.
\<close>

record store =
  obj_J :: "real list"
  obj_\<sigma> :: "int list"
  it_pos :: nat
  sum_acc :: real

definition start :: "store \<Rightarrow> store" where
  "start s = s\<lparr>it_pos := 0, sum_acc := 0\<rparr>"

definition iter_next :: "store \<Rightarrow> (nat \<times> real) option \<times> store" where
  "iter_next s =
     (if it_pos s < length (obj_J s)
      then (Some (it_pos s, obj_J s ! it_pos s), s\<lparr>it_pos := it_pos s + 1\<rparr>)
      else (None, s))"

definition load_spin :: "nat \<Rightarrow> store \<Rightarrow> (error + int) \<times> store" where
  "load_spin i s = (getitem (obj_\<sigma> s) i, s)"

definition add_term :: "real \<Rightarrow> store \<Rightarrow> store" where
  "add_term v s = s\<lparr>sum_acc := sum_acc s + v\<rparr>"

function run_sum :: "store \<Rightarrow> (error + real) \<times> store" where
  "run_sum s =
     (case iter_next s of
        (None, s1) \<Rightarrow> (Inr (sum_acc s1), s1)
      | (Some (i, J_ij), s1) \<Rightarrow>
          (case load_spin i s1 of
             (Inl e, s2) \<Rightarrow> (Inl e, s2)
           | (Inr a, s2) \<Rightarrow>
               (case to_float a of
                  Inl e \<Rightarrow> (Inl e, s2)
                | Inr x \<Rightarrow>
                    (case load_spin (i + 1) s2 of
                       (Inl e, s3) \<Rightarrow> (Inl e, s3)
                     | (Inr b, s3) \<Rightarrow>
                         (case to_float b of
                            Inl e \<Rightarrow> (Inl e, s3)
                          | Inr y \<Rightarrow> run_sum (add_term (J_ij * x * y) s3))))))"
  by pat_completeness auto
termination
  by (relation "measure (\<lambda>s. length (obj_J s) - it_pos s)")
     (auto simp: iter_next_def load_spin_def add_term_def split: if_splits)

declare run_sum.simps [simp del]

definition run_calculate_energy :: "store \<Rightarrow> (error + real) \<times> store" where
  "run_calculate_energy s = run_sum (start s)"

section \<open>Properties of the energy function\<close>

lemma too_large_uminus: "too_large (- a) = too_large a"
  by (simp add: too_large_def)

lemma not_too_large_small: "\<bar>a\<bar> \<le> 1000 \<Longrightarrow> \<not> too_large a"
  by (simp add: too_large_def)

lemma too_large_example: "too_large (10 ^ 400)"
  by (simp add: too_large_def)

lemma to_float_small: "\<bar>a\<bar> \<le> 1000 \<Longrightarrow> to_float a = Inr (of_int a)"
  by (simp add: to_float_def not_too_large_small)

lemma coupling_term_pair:
  "coupling_term \<sigma> (i, c) =
     (case getitem \<sigma> i of
        Inl e \<Rightarrow> Inl e
      | Inr a \<Rightarrow>
          (case to_float a of
             Inl e \<Rightarrow> Inl e
           | Inr x \<Rightarrow>
               (case getitem \<sigma> (i + 1) of
                  Inl e \<Rightarrow> Inl e
                | Inr b \<Rightarrow>
                    (case to_float b of
                       Inl e \<Rightarrow> Inl e
                     | Inr y \<Rightarrow> Inr (c * x * y)))))"
  by (simp add: coupling_term_def)

text \<open>The four ways one term can end.\<close>

lemma coupling_term_cases:
  "coupling_term \<sigma> (i, c) =
     (if length \<sigma> \<le> i then Inl IndexError
      else if too_large (\<sigma> ! i) then Inl OverflowError
      else if length \<sigma> \<le> i + 1 then Inl IndexError
      else if too_large (\<sigma> ! (i + 1)) then Inl OverflowError
      else Inr (c * of_int (\<sigma> ! i) * of_int (\<sigma> ! (i + 1))))"
  by (simp add: coupling_term_pair getitem_def to_float_def)

lemma py_sum_enumerate:
  "py_sum (coupling_term \<sigma>) (enumerate n J) acc =
     (if J = [] then Inr acc
      else if list_ex too_large (take (length J + 1) (drop n \<sigma>)) then Inl OverflowError
      else if n + length J < length \<sigma>
      then Inr (acc + (\<Sum>k<length J. J ! k * of_int (\<sigma> ! (n + k)) * of_int (\<sigma> ! (n + k + 1))))
      else Inl IndexError)"
proof (induction J arbitrary: n acc)
  case Nil
  show ?case by simp
next
  case (Cons c J)
  show ?case
  proof (cases "n < length \<sigma>")
    case False
    then show ?thesis
      by (simp add: coupling_term_cases)
  next
    case n: True
    then have drop_n: "drop n \<sigma> = \<sigma> ! n # drop (Suc n) \<sigma>"
      by (simp add: Cons_nth_drop_Suc)
    show ?thesis
    proof (cases "too_large (\<sigma> ! n)")
      case True
      then show ?thesis
        using n by (simp add: coupling_term_cases drop_n)
    next
      case ok_n: False
      show ?thesis
      proof (cases "Suc n < length \<sigma>")
        case False
        then have "drop (Suc n) \<sigma> = []" by simp
        then show ?thesis
          using n ok_n False by (simp add: coupling_term_cases drop_n)
      next
        case n1: True
        then have drop_n1: "drop (Suc n) \<sigma> = \<sigma> ! Suc n # drop (Suc (Suc n)) \<sigma>"
          by (simp add: Cons_nth_drop_Suc)
        show ?thesis
        proof (cases "too_large (\<sigma> ! Suc n)")
          case True
          then show ?thesis
            using n ok_n n1 by (simp add: coupling_term_cases drop_n drop_n1)
        next
          case ok_n1: False
          have step: "py_sum (coupling_term \<sigma>) (enumerate n (c # J)) acc =
              py_sum (coupling_term \<sigma>) (enumerate (Suc n) J)
                (acc + c * of_int (\<sigma> ! n) * of_int (\<sigma> ! (n + 1)))"
            using n ok_n n1 ok_n1 by (simp add: coupling_term_cases)
          show ?thesis
          proof (cases "J = []")
            case True
            then show ?thesis
              using n ok_n n1 ok_n1 by (simp add: coupling_term_cases drop_n drop_n1)
          next
            case False
            then show ?thesis
              unfolding step Cons.IH
              using ok_n
              by (simp add: drop_n sum.lessThan_Suc_shift add.assoc del: sum.lessThan_Suc)
          qed
        qed
      qed
    qed
  qed
qed

lemma calculate_energy_eq:
  "calculate_energy J \<sigma> =
     (if J = [] then Inr 0
      else if list_ex too_large (take (length J + 1) \<sigma>) then Inl OverflowError
      else if length J < length \<sigma> then Inr (chain_sum J \<sigma>)
      else Inl IndexError)"
  unfolding calculate_energy_def chain_sum_def py_sum_enumerate by simp

lemma chain_sum_Nil: "chain_sum [] \<sigma> = 0"
  by (simp add: chain_sum_def)

lemma spins_not_too_large: "\<forall>s\<in>set \<sigma>. s = 1 \<or> s = - 1 \<Longrightarrow> \<not> list_ex too_large \<sigma>"
  by (auto simp: list_ex_iff not_too_large_small)

lemma calculate_energy_value:
  "J = [] \<or> length J < length \<sigma> \<Longrightarrow> \<not> list_ex too_large \<sigma> \<Longrightarrow>
     calculate_energy J \<sigma> = Inr (chain_sum J \<sigma>)"
  by (auto simp: calculate_energy_eq chain_sum_Nil list_ex_iff dest: in_set_takeD)

text \<open>Evaluation of the definitions on explicit lists.\<close>

lemmas energy_eval =
  calculate_energy_def coupling_term_def getitem_def to_float_small

lemma sum_list_enumerate:
  "sum_list (map f (enumerate n J)) = (\<Sum>k<length J. (f (n + k, J ! k) :: real))"
proof (induction J arbitrary: n)
  case Nil
  show ?case by simp
next
  case (Cons c J)
  show ?case
    by (simp add: Cons.IH sum.lessThan_Suc_shift del: sum.lessThan_Suc)
qed

text \<open>
  The sum of the terms of a chain against the specification's Hamiltonian of that chain
  with no fields and no offset.
\<close>

lemma chain_sum_spec_hamiltonian:
  "chain_sum J \<sigma> = - spec_hamiltonian (chain_couplings J) [] 0 \<sigma>"
  by (simp add: chain_sum_def spec_hamiltonian_def chain_couplings_def sum_list_enumerate)

subsection \<open>The value returned\<close>

lemma chain_sum_Ints: "\<forall>c\<in>set J. c \<in> \<int> \<Longrightarrow> chain_sum J \<sigma> \<in> \<int>"
  unfolding chain_sum_def by (intro Ints_sum Ints_mult Ints_of_int) simp

lemma abs_chain_sum_le:
  assumes "length J < length \<sigma>" and "\<forall>s\<in>set \<sigma>. s = 1 \<or> s = - 1"
  shows "\<bar>chain_sum J \<sigma>\<bar> \<le> sum_list (map abs J)"
proof -
  have one: "\<bar>J ! i * of_int (\<sigma> ! i) * of_int (\<sigma> ! (i + 1))\<bar> = \<bar>J ! i\<bar>"
    if "i < length J" for i
  proof -
    have "\<sigma> ! i \<in> set \<sigma>" and "\<sigma> ! (i + 1) \<in> set \<sigma>"
      using that assms(1) by simp_all
    then have "\<bar>of_int (\<sigma> ! i) :: real\<bar> = 1" and "\<bar>of_int (\<sigma> ! (i + 1)) :: real\<bar> = 1"
      using assms(2) by auto
    then show ?thesis
      by (simp add: abs_mult)
  qed
  have "\<bar>chain_sum J \<sigma>\<bar> \<le> (\<Sum>i<length J. \<bar>J ! i * of_int (\<sigma> ! i) * of_int (\<sigma> ! (i + 1))\<bar>)"
    unfolding chain_sum_def by (rule sum_abs)
  also have "\<dots> = (\<Sum>i<length J. \<bar>J ! i\<bar>)"
    using one by simp
  also have "\<dots> = sum_list (map abs J)"
    by (simp add: sum_list_sum_nth atLeast0LessThan)
  finally show ?thesis .
qed

text \<open>
  Claim C1, amended. \<open>calculate_energy\<close> takes a list of chain couplings and a
  configuration, and neither fields nor an offset. For a configuration of spins
  \<open>+1, -1\<close> longer than the list of couplings (or no couplings at all), and couplings
  that are integers whose absolute values add up to at most \<open>2 ^ 53\<close>, it returns a
  value, an integer of magnitude at most \<open>2 ^ 53\<close>, and the magnitude of that value is
  the magnitude of the specification's Hamiltonian of the chain with no fields and offset
  zero. Nothing is said of the sign of the value.
\<close>

theorem calculate_energy_magnitude:
  assumes "J = [] \<or> length J < length \<sigma>"
    and "\<forall>s\<in>set \<sigma>. s = 1 \<or> s = - 1"
    and "\<forall>c\<in>set J. c \<in> \<int>"
    and "sum_list (map abs J) \<le> 2 ^ 53"
  shows "\<exists>E. calculate_energy J \<sigma> = Inr E \<and> E \<in> \<int> \<and> \<bar>E\<bar> \<le> 2 ^ 53
           \<and> \<bar>E\<bar> = \<bar>spec_hamiltonian (chain_couplings J) [] 0 \<sigma>\<bar>"
proof -
  have "calculate_energy J \<sigma> = Inr (chain_sum J \<sigma>)"
    using assms(1,2) by (simp add: calculate_energy_value spins_not_too_large)
  moreover have "chain_sum J \<sigma> \<in> \<int>"
    using assms(3) by (rule chain_sum_Ints)
  moreover have "\<bar>chain_sum J \<sigma>\<bar> \<le> 2 ^ 53"
  proof (cases "J = []")
    case True
    then show ?thesis by (simp add: chain_sum_Nil)
  next
    case False
    then have "\<bar>chain_sum J \<sigma>\<bar> \<le> sum_list (map abs J)"
      using assms(1,2) by (simp add: abs_chain_sum_le)
    then show ?thesis using assms(4) by simp
  qed
  moreover have "\<bar>chain_sum J \<sigma>\<bar> = \<bar>spec_hamiltonian (chain_couplings J) [] 0 \<sigma>\<bar>"
    by (simp add: chain_sum_spec_hamiltonian)
  ultimately show ?thesis by blast
qed

text \<open>C1, at the notebook's couplings and the configuration \<open>(+1, -1, -1)\<close>.\<close>

theorem calculate_energy_magnitude_witness:
  "calculate_energy [1, - 1] [1, - 1, - 1] = Inr (- 2) \<and>
   \<bar>spec_hamiltonian [((0, 1), 1), ((1, 2), - 1)] [] 0 [1, - 1, - 1]\<bar> = 2"
proof -
  have h1: "[1, - 1 :: real] = [] \<or> length [1, - 1 :: real] < length [1, - 1, - 1 :: int]"
    by simp
  have h2: "\<forall>s\<in>set [1, - 1, - 1 :: int]. s = 1 \<or> s = - 1"
    by simp
  have h3: "\<forall>c\<in>set [1, - 1 :: real]. c \<in> \<int>"
    by simp
  have h4: "sum_list (map abs [1, - 1 :: real]) \<le> 2 ^ 53"
    by simp
  from calculate_energy_magnitude [OF h1 h2 h3 h4]
  obtain E where "calculate_energy [1, - 1] [1, - 1, - 1] = Inr E"
    and "\<bar>E\<bar> = \<bar>spec_hamiltonian (chain_couplings [1, - 1]) [] 0 [1, - 1, - 1]\<bar>"
    by blast
  then show ?thesis
    by (simp add: energy_eval spec_hamiltonian_def chain_couplings_def)
qed

text \<open>
  C1 as stated fails: the result is not the specification's Hamiltonian when a field is
  present (the field \<open>1/2\<close> on site \<open>0\<close>, where the sum of the couplings' terms is zero),
  nor when the offset is not zero (offset \<open>1\<close>, no couplings).
\<close>

theorem calculate_energy_spec_hamiltonian_counterexample:
  "calculate_energy [1, - 1] [1, - 1, 1]
     \<noteq> Inr (spec_hamiltonian (chain_couplings [1, - 1]) [(0, 1 / 2)] 0 [1, - 1, 1])
   \<and> calculate_energy [] [1] \<noteq> Inr (spec_hamiltonian (chain_couplings []) [] 1 [1])"
  by (simp add: energy_eval spec_hamiltonian_def chain_couplings_def)

subsection \<open>Symmetry and locality\<close>

text \<open>
  Claim C5. Negating every entry of the configuration does not change the result of
  \<open>calculate_energy\<close>, which has no field term: for all couplings and all
  configurations, also those too short, where both calls raise.
\<close>

theorem calculate_energy_spin_flip:
  "calculate_energy J (map uminus \<sigma>) = calculate_energy J \<sigma>"
  by (simp add: calculate_energy_eq chain_sum_def take_map list_ex_iff too_large_uminus)

text \<open>
  Claim C10. \<open>calculate_energy\<close> reads the entries \<open>0, \<dots>, len(J)\<close> of the
  configuration only: two configurations that have these entries and agree on them give
  the same result, whatever follows; and with no couplings the result is \<open>0\<close>.
\<close>

theorem calculate_energy_prefix:
  "(length J < length \<sigma> \<and> length J < length \<sigma>' \<and> (\<forall>i\<le>length J. \<sigma> ! i = \<sigma>' ! i)
      \<longrightarrow> calculate_energy J \<sigma> = calculate_energy J \<sigma>')
   \<and> calculate_energy [] \<sigma> = Inr 0"
proof (intro conjI impI)
  assume h: "length J < length \<sigma> \<and> length J < length \<sigma>' \<and> (\<forall>i\<le>length J. \<sigma> ! i = \<sigma>' ! i)"
  then have "take (length J + 1) \<sigma> = take (length J + 1) \<sigma>'"
    by (intro nth_equalityI) auto
  then show "calculate_energy J \<sigma> = calculate_energy J \<sigma>'"
    using h by (simp add: calculate_energy_eq chain_sum_def)
next
  show "calculate_energy [] \<sigma> = Inr 0"
    by (simp add: calculate_energy_eq)
qed

text \<open>C10, at the notebook's couplings: two more sites after the first three.\<close>

theorem calculate_energy_prefix_witness:
  "calculate_energy [1, - 1] [1, - 1, 1] = calculate_energy [1, - 1] [1, - 1, 1, - 1, - 1]
   \<and> calculate_energy [] [1, - 1, 1] = Inr 0"
proof -
  have "\<forall>i\<le>length [1, - 1 :: real]. [1, - 1, 1 :: int] ! i = [1, - 1, 1, - 1, - 1] ! i"
    by (simp add: le_Suc_eq all_conj_distrib)
  then show ?thesis
    using calculate_energy_prefix [of "[1, - 1]" "[1, - 1, 1]" "[1, - 1, 1, - 1, - 1]"]
    by simp
qed

subsection \<open>Errors\<close>

text \<open>
  Claim C6, amended. With at least one coupling, \<open>calculate_energy\<close> raises
  OverflowError exactly when one of the entries \<open>0, \<dots>, len(J)\<close> that the configuration has
  is too large for a float, and IndexError exactly when the configuration is not longer
  than the list of couplings, so that some \<open>\<sigma>[i+1]\<close> is out of range, and none of its
  entries is too large. In every other case, and with no couplings, it returns a value. It
  has no other error: whether the entries are spins is not checked.
\<close>

theorem calculate_energy_errors:
  "(calculate_energy J \<sigma> = Inl OverflowError) =
      (J \<noteq> [] \<and> list_ex too_large (take (length J + 1) \<sigma>))
   \<and> (calculate_energy J \<sigma> = Inl IndexError) =
      (J \<noteq> [] \<and> length \<sigma> \<le> length J \<and> \<not> list_ex too_large \<sigma>)
   \<and> calculate_energy J \<sigma> \<noteq> Inl ValueError
   \<and> (\<exists>E. calculate_energy J \<sigma> = Inr E) =
      (J = [] \<or> length J < length \<sigma> \<and> \<not> list_ex too_large (take (length J + 1) \<sigma>))"
  by (auto simp add: calculate_energy_eq)

text \<open>
  C6, at one coupling: an entry of \<open>10 ^ 400\<close> raises OverflowError, whether it is the
  only entry (so that the next one is missing), the first of two or the second of two; a
  single spin raises IndexError; two spins give a value.
\<close>

theorem calculate_energy_errors_witness:
  "calculate_energy [1] [10 ^ 400] = Inl OverflowError
   \<and> calculate_energy [1] [10 ^ 400, 1] = Inl OverflowError
   \<and> calculate_energy [1] [1, 10 ^ 400] = Inl OverflowError
   \<and> calculate_energy [1] [1] = Inl IndexError
   \<and> (\<exists>E. calculate_energy [1] [1, - 1] = Inr E)"
proof -
  have small: "\<not> too_large 1" "\<not> too_large (- 1)"
    by (simp_all add: not_too_large_small)
  have "calculate_energy [1] [10 ^ 400] = Inl OverflowError"
    using calculate_energy_errors [of "[1]" "[10 ^ 400]"] too_large_example
    by (simp del: power_numeral)
  moreover have "calculate_energy [1] [10 ^ 400, 1] = Inl OverflowError"
    using calculate_energy_errors [of "[1]" "[10 ^ 400, 1]"] too_large_example
    by (simp del: power_numeral)
  moreover have "calculate_energy [1] [1, 10 ^ 400] = Inl OverflowError"
    using calculate_energy_errors [of "[1]" "[1, 10 ^ 400]"] too_large_example
    by (simp del: power_numeral)
  moreover have "calculate_energy [1] [1] = Inl IndexError"
    using calculate_energy_errors [of "[1]" "[1]"] small
    by simp
  moreover have "\<exists>E. calculate_energy [1] [1, - 1] = Inr E"
    using calculate_energy_errors [of "[1]" "[1, - 1]"] small
    by simp
  ultimately show ?thesis by blast
qed

text \<open>
  C6 as stated fails: the entries \<open>2\<close> and \<open>3\<close> are not spins, and the call returns
  their product with the coupling.
\<close>

theorem calculate_energy_unchecked_counterexample:
  "calculate_energy [1] [2, 3] = Inr 6"
  by (simp add: energy_eval)

section \<open>Properties of the exhaustive enumeration\<close>

subsection \<open>The configurations and the printed table\<close>








subsection \<open>Reading the minimum off a table\<close>





text \<open>The table the notebook prints for \<^verbatim>\<open>J = [1.0, -1.0]\<close>.\<close>

lemma notebook_table:
  "exhaustive_search [1, - 1] 3 =
     ([(0, [1, 1, 1]), (2, [1, 1, - 1]), (0, [1, - 1, 1]), (- 2, [1, - 1, - 1]),
       (- 2, [- 1, 1, 1]), (0, [- 1, 1, - 1]), (2, [- 1, - 1, 1]), (0, [- 1, - 1, - 1])], None)"
  by (simp add: exhaustive_search_def configurations_def spins_def numeral_3_eq_3
     energy_eval)

subsection \<open>Completeness of the enumeration\<close>




subsection \<open>The instance of the notebook\<close>

text \<open>
  Claim C2, amended. On three sites with the couplings \<open>1.0\<close> and \<open>-1.0\<close> the loop
  prints eight lines; the least energy is \<open>-2\<close>, and exactly two lines have it, the
  configuration of one the negation of the other's. They are not the lines of
  \<open>(+1, -1, +1)\<close> and \<open>(-1, +1, -1)\<close>.
\<close>

theorem notebook_ground_states:
  "exhaustive_search [1, - 1] 3 =
     ([(0, [1, 1, 1]), (2, [1, 1, - 1]), (0, [1, - 1, 1]), (- 2, [1, - 1, - 1]),
       (- 2, [- 1, 1, 1]), (0, [- 1, 1, - 1]), (2, [- 1, - 1, 1]), (0, [- 1, - 1, - 1])], None)
   \<and> minimum_energy (fst (exhaustive_search [1, - 1] 3)) = - 2
   \<and> length (ground_states (fst (exhaustive_search [1, - 1] 3))) = 2
   \<and> ground_states (fst (exhaustive_search [1, - 1] 3)) =
       [[1, - 1, - 1], map uminus [1, - 1, - 1]]
   \<and> [1, - 1, 1] \<notin> set (ground_states (fst (exhaustive_search [1, - 1] 3)))
   \<and> [- 1, 1, - 1] \<notin> set (ground_states (fst (exhaustive_search [1, - 1] 3)))"
  by (simp add: notebook_table minimum_energy_def ground_states_def)

text \<open>
  C2 as stated fails: the two configurations it names have energy \<open>0\<close>, in the code and
  in the specification's formula alike, and \<open>(+1, -1, -1)\<close> has energy \<open>-2\<close>.
\<close>

theorem notebook_named_states_counterexample:
  "calculate_energy [1, - 1] [1, - 1, 1] = Inr 0
   \<and> calculate_energy [1, - 1] [- 1, 1, - 1] = Inr 0
   \<and> spec_hamiltonian [((0, 1), 1), ((1, 2), - 1)] [] 0 [1, - 1, 1] = 0
   \<and> spec_hamiltonian [((0, 1), 1), ((1, 2), - 1)] [] 0 [- 1, 1, - 1] = 0
   \<and> calculate_energy [1, - 1] [1, - 1, - 1] = Inr (- 2)"
  by (simp add: energy_eval spec_hamiltonian_def)

subsection \<open>Two sites\<close>

lemma two_site_table:
  "exhaustive_search [c] 2 =
     ([(c, [1, 1]), (- c, [1, - 1]), (- c, [- 1, 1]), (c, [- 1, - 1])], None)"
  by (simp add: exhaustive_search_def configurations_def spins_def numeral_2_eq_2
     energy_eval)

text \<open>For every coupling the least energy on two sites is \<open>- |c|\<close>.\<close>

lemma two_site_minimum:
  "minimum_energy (fst (exhaustive_search [c] 2)) = - \<bar>c\<bar>"
  by (simp add: two_site_table minimum_energy_def min_def)

text \<open>
  The minimisers on two sites: for a positive coupling the two configurations whose
  product is \<open>-1\<close>, for a negative one the two whose product is \<open>+1\<close>.
\<close>

lemma two_site_ground_states:
  "ground_states (fst (exhaustive_search [c] 2)) =
     (if 0 < c then [[1, - 1], [- 1, 1]]
      else if c < 0 then [[1, 1], [- 1, - 1]]
      else [[1, 1], [1, - 1], [- 1, 1], [- 1, - 1]])"
  by (simp add: two_site_table ground_states_def minimum_energy_def min_def)

text \<open>
  Claim C7, the code at the coupling \<open>1.0\<close> on two sites: the least energy is
  \<open>-1 = - |J|\<close>, and it is reached where the product of the two spins is \<open>-1\<close>, the
  sign opposite to that of the coupling; at the coupling \<open>-1.0\<close> it is reached where the
  product is \<open>+1\<close>. The notebook's formula has a minus in front of the sum, with which
  the minimisers at \<open>1.0\<close> are those of product \<open>+1\<close>, as the claim says.
\<close>

theorem two_site_search_positive_coupling:
  "exhaustive_search [1] 2 = ([(1, [1, 1]), (- 1, [1, - 1]), (- 1, [- 1, 1]), (1, [- 1, - 1])], None)
   \<and> minimum_energy (fst (exhaustive_search [1] 2)) = - 1
   \<and> ground_states (fst (exhaustive_search [1] 2)) = [[1, - 1], [- 1, 1]]
   \<and> ground_states (fst (exhaustive_search [- 1] 2)) = [[1, 1], [- 1, - 1]]
   \<and> spec_hamiltonian [((0, 1), 1)] [] 0 [1, 1] = - 1
   \<and> spec_hamiltonian [((0, 1), 1)] [] 0 [1, - 1] = 1"
  using two_site_table [of 1] two_site_minimum [of 1] two_site_ground_states [of 1]
    two_site_ground_states [of "- 1"]
  by (simp add: spec_hamiltonian_def)

section \<open>The evaluation leaves its inputs alone\<close>

lemma run_sum_eq:
  "fst (run_sum s) =
     py_sum (coupling_term (obj_\<sigma> s)) (enumerate (it_pos s) (drop (it_pos s) (obj_J s))) (sum_acc s)
   \<and> obj_J (snd (run_sum s)) = obj_J s \<and> obj_\<sigma> (snd (run_sum s)) = obj_\<sigma> s"
proof (induction s rule: run_sum.induct)
  case (1 s)
  let ?i = "it_pos s"
  let ?\<sigma> = "obj_\<sigma> s"
  show ?case
  proof (cases "?i < length (obj_J s)")
    case False
    then show ?thesis
      by (subst (1 2 3) run_sum.simps) (simp add: iter_next_def)
  next
    case True
    then have drop: "drop ?i (obj_J s) = obj_J s ! ?i # drop (Suc ?i) (obj_J s)"
      by (simp add: Cons_nth_drop_Suc)
    let ?s1 = "s\<lparr>it_pos := Suc ?i\<rparr>"
    have nxt: "iter_next s = (Some (?i, obj_J s ! ?i), ?s1)"
      using True by (simp add: iter_next_def)
    let ?ok = "Suc ?i < length ?\<sigma> \<and> \<not> too_large (?\<sigma> ! ?i) \<and> \<not> too_large (?\<sigma> ! Suc ?i)"
    show ?thesis
    proof (cases ?ok)
      case False
      then show ?thesis
        by (subst (1 2 3) run_sum.simps)
           (auto simp add: nxt load_spin_def getitem_def to_float_def drop coupling_term_cases)
    next
      case ok: True
      let ?a = "?\<sigma> ! ?i" and ?b = "?\<sigma> ! Suc ?i"
      let ?s4 = "add_term (obj_J s ! ?i * of_int ?a * of_int ?b) ?s1"
      have ld_a: "load_spin ?i ?s1 = (Inr ?a, ?s1)"
        using ok by (simp add: load_spin_def getitem_def)
      have ld_b: "load_spin (Suc ?i) ?s1 = (Inr ?b, ?s1)"
        using ok by (simp add: load_spin_def getitem_def)
      then have ld_b': "load_spin (?i + 1) ?s1 = (Inr ?b, ?s1)"
        by simp
      have tf_a: "to_float ?a = Inr (of_int ?a)" and tf_b: "to_float ?b = Inr (of_int ?b)"
        using ok by (simp_all add: to_float_def)
      have step: "run_sum s = run_sum ?s4"
        by (subst run_sum.simps) (simp add: nxt ld_a ld_b tf_a tf_b)
      have ih: "fst (run_sum ?s4) =
          py_sum (coupling_term (obj_\<sigma> ?s4)) (enumerate (it_pos ?s4) (drop (it_pos ?s4) (obj_J ?s4)))
            (sum_acc ?s4)
          \<and> obj_J (snd (run_sum ?s4)) = obj_J ?s4 \<and> obj_\<sigma> (snd (run_sum ?s4)) = obj_\<sigma> ?s4"
        by (rule "1.IH" [OF nxt [symmetric] refl refl ld_a [symmetric] refl tf_a
              ld_b' [symmetric] refl tf_b])
      show ?thesis
        using ih ok unfolding step
        by (simp add: add_term_def drop coupling_term_cases)
    qed
  qed
qed

text \<open>
  Claim C9. Run on a store, the call returns the value \<open>calculate_energy\<close> has for the
  two inputs, whatever an earlier call left in the iterator and the accumulator; it leaves
  both inputs as they were; and a second evaluation on the store the first one left
  returns the same value.
\<close>

theorem run_calculate_energy_pure:
  "fst (run_calculate_energy s) = calculate_energy (obj_J s) (obj_\<sigma> s)
   \<and> obj_J (snd (run_calculate_energy s)) = obj_J s
   \<and> obj_\<sigma> (snd (run_calculate_energy s)) = obj_\<sigma> s
   \<and> fst (run_calculate_energy (snd (run_calculate_energy s))) = fst (run_calculate_energy s)"
proof -
  have one: "fst (run_calculate_energy t) = calculate_energy (obj_J t) (obj_\<sigma> t)
      \<and> obj_J (snd (run_calculate_energy t)) = obj_J t
      \<and> obj_\<sigma> (snd (run_calculate_energy t)) = obj_\<sigma> t" for t
    using run_sum_eq [of "start t"]
    by (simp add: run_calculate_energy_def calculate_energy_def start_def)
  show ?thesis
    using one [of s] one [of "snd (run_calculate_energy s)"] by simp
qed

section \<open>Encodings\<close>

text \<open>
  Claim C4. A configuration of spins \<open>+1, -1\<close>, taken to binary values by
  \<open>w = (s+1)/2\<close> and back by \<open>s = 2w - 1\<close>, is the configuration it was, entry for
  entry; the binary values in between are \<open>0\<close> and \<open>1\<close>. The arithmetic is on integers
  throughout, and the division is exact on these entries.
\<close>

theorem spin_binary_roundtrip:
  assumes "\<forall>s\<in>set \<sigma>. s = 1 \<or> s = - 1"
  shows "map binary_to_spin (map spin_to_binary \<sigma>) = \<sigma>
         \<and> set (map spin_to_binary \<sigma>) \<subseteq> {0, 1}"
proof -
  have "binary_to_spin (spin_to_binary s) = s \<and> spin_to_binary s \<in> {0, 1}"
    if "s \<in> set \<sigma>" for s
    using assms that by (auto simp: binary_to_spin_def spin_to_binary_def)
  then show ?thesis
    by (auto simp: map_idI)
qed

text \<open>C4, at the notebook's configuration \<open>(+1, -1, +1)\<close>.\<close>

theorem spin_binary_roundtrip_witness:
  "map binary_to_spin (map spin_to_binary [1, - 1, 1]) = [1, - 1, 1]
   \<and> map spin_to_binary [1, - 1, 1] = [1, 0, 1]"
  using spin_binary_roundtrip [of "[1, - 1, 1]"]
  by (simp add: spin_to_binary_def)

section \<open>The least energy of a batch\<close>

lemma first_from_mem: "first_from best rs \<in> set (best # rs)"
  by (induction rs arbitrary: best) auto

lemma first_from_le_best: "snd (first_from best rs) \<le> snd best"
proof (induction rs arbitrary: best)
  case Nil
  show ?case by simp
next
  case (Cons r rs)
  have "snd (first_from (if snd r < snd best then r else best) rs)
          \<le> snd (if snd r < snd best then r else best)"
    by (rule Cons.IH)
  also have "\<dots> \<le> snd best" by simp
  finally show ?case by simp
qed

lemma first_from_le_rest: "r \<in> set rs \<Longrightarrow> snd (first_from best rs) \<le> snd r"
proof (induction rs arbitrary: best)
  case Nil
  then show ?case by simp
next
  case (Cons x rs)
  show ?case
  proof (cases "r = x")
    case True
    have "snd (first_from (if snd x < snd best then x else best) rs)
            \<le> snd (if snd x < snd best then x else best)"
      by (rule first_from_le_best)
    also have "\<dots> \<le> snd x" by simp
    finally show ?thesis using True by simp
  next
    case False
    with Cons.prems have "r \<in> set rs" by simp
    then show ?thesis by (simp add: Cons.IH)
  qed
qed

text \<open>
  Claim C8. Of a batch that is not empty, \<open>first\<close> is one of its reads and no read of
  the batch has less energy; the weights are the values of that read's sample. The batch
  is all that is looked at, once. The result need not be a ground state: on the Ising
  notebook's instance a batch of the one read \<open>(+1, +1, +1)\<close>, with its true energy
  \<open>0\<close>, gives that read, above the least energy \<open>-2\<close> of the exhaustive table.
\<close>

theorem sampleset_first_minimum:
  "(response \<noteq> [] \<longrightarrow>
      (\<exists>r. sampleset_first response = Inr r \<and> r \<in> set response
           \<and> (\<forall>r'\<in>set response. snd r \<le> snd r')
           \<and> weights response = Inr (map snd (fst r))))
   \<and> (\<exists>batch r. sampleset_first batch = Inr r
           \<and> calculate_energy [1, - 1] (map snd (fst r)) = Inr (snd r)
           \<and> minimum_energy (fst (exhaustive_search [1, - 1] 3)) < snd r)"
proof (intro conjI impI)
  assume "response \<noteq> []"
  then obtain x rs where response: "response = x # rs"
    by (cases response) auto
  let ?r = "first_from x rs"
  have "sampleset_first response = Inr ?r"
    by (simp add: response sampleset_first_def)
  moreover have "?r \<in> set response"
    using first_from_mem [of x rs] by (simp add: response)
  moreover have "\<forall>r'\<in>set response. snd ?r \<le> snd r'"
    using first_from_le_best [of x rs] first_from_le_rest [of _ rs x]
    by (auto simp: response)
  moreover have "weights response = Inr (map snd (fst ?r))"
    by (simp add: response weights_def sampleset_first_def)
  ultimately show "\<exists>r. sampleset_first response = Inr r \<and> r \<in> set response
           \<and> (\<forall>r'\<in>set response. snd r \<le> snd r')
           \<and> weights response = Inr (map snd (fst r))"
    by blast
next
  let ?r = "([(0, 1), (1, 1), (2, 1)], 0) :: sample \<times> real"
  have "sampleset_first [?r] = Inr ?r"
    by (simp add: sampleset_first_def)
  moreover have "calculate_energy [1, - 1] (map snd (fst ?r)) = Inr (snd ?r)"
    by (simp add: energy_eval)
  moreover have "minimum_energy (fst (exhaustive_search [1, - 1] 3)) < snd ?r"
    by (simp add: notebook_table minimum_energy_def)
  ultimately show "\<exists>batch r. sampleset_first batch = Inr r
           \<and> calculate_energy [1, - 1] (map snd (fst r)) = Inr (snd r)
           \<and> minimum_energy (fst (exhaustive_search [1, - 1] 3)) < snd r"
    by blast
qed

text \<open>C8, at a batch of three reads, the second and third of least energy.\<close>

theorem sampleset_first_minimum_witness:
  "sampleset_first
     [([(0, 1), (1, 1), (2, 1)], 0), ([(0, 1), (1, - 1), (2, - 1)], - 2),
      ([(0, - 1), (1, 1), (2, 1)], - 2)]
     = Inr ([(0, 1), (1, - 1), (2, - 1)], - 2)
   \<and> weights
     [([(0, 1), (1, 1), (2, 1)], 0), ([(0, 1), (1, - 1), (2, - 1)], - 2),
      ([(0, - 1), (1, 1), (2, 1)], - 2)]
     = Inr [1, - 1, - 1]"
  using sampleset_first_minimum
    [of "[([(0, 1), (1, 1), (2, 1)], 0), ([(0, 1), (1, - 1), (2, - 1)], - 2),
          ([(0, - 1), (1, 1), (2, 1)], - 2)]"]
  by (simp add: sampleset_first_def weights_def)

end
